theory Spec2Isabelle
  imports Complex_Main "HOL-Library.Word" "HOL-Library.Sublist"
begin

section \<open>JavaScript strings\<close>

text \<open>
  A JavaScript string is a sequence of UTF-16 code units, and the query reaches the
  engine from a JSON request body, where any sequence of code units can be written
  (also an unpaired surrogate, as an escape). Strings that depend on the
  query are therefore lists of 16-bit words. Names that the source only ever writes as
  literals (tool names, intent types, messages) are plain \<^typ>\<open>string\<close>s; \<open>js\<close> turns
  such a literal into its code units.
\<close>

type_synonym jsstring = "16 word list"

definition js :: "string \<Rightarrow> jsstring" where
  "js s = map (\<lambda>c. of_nat (of_char c)) s"

text \<open>\<^verbatim>\<open>String.prototype.includes\<close>: the needle occurs as a contiguous run.\<close>

fun js_includes :: "jsstring \<Rightarrow> jsstring \<Rightarrow> bool" where
  "js_includes [] k = (k = [])"
| "js_includes (c # cs) k = (prefix k (c # cs) \<or> js_includes cs k)"

text \<open>Decimal digits of a number, as \<^verbatim>\<open>String(n)\<close> and a template literal print it.\<close>

function decimal :: "nat \<Rightarrow> string" where
  "decimal n = (if n < 10 then [char_of (48 + n)] else decimal (n div 10) @ [char_of (48 + n mod 10)])"
  by pat_completeness auto
termination
  by (relation "measure (\<lambda>n. n)") auto

declare decimal.simps [simp del]

subsection \<open>Thrown values\<close>

text \<open>
  The values the engine can throw. \<open>TypeError\<close> is what calling a property that is
  \<^verbatim>\<open>undefined\<close> raises, \<open>ReferenceError\<close> what reading an unbound identifier raises,
  \<open>URIError\<close> what \<^verbatim>\<open>encodeURIComponent\<close> raises; the last three are for providers.
\<close>

datatype thrown =
    TypeError string
  | ReferenceError string
  | URIError string
  | ProviderUnavailable
  | ContentUnreadable
  | OtherError string

subsection \<open>encodeURIComponent\<close>

definition isHighSurrogate :: "16 word \<Rightarrow> bool" where
  "isHighSurrogate c = (0xD800 \<le> c \<and> c \<le> 0xDBFF)"

definition isLowSurrogate :: "16 word \<Rightarrow> bool" where
  "isLowSurrogate c = (0xDC00 \<le> c \<and> c \<le> 0xDFFF)"

text \<open>
  The code units \<^verbatim>\<open>encodeURIComponent\<close> copies unchanged: ASCII letters, digits and
  \<^verbatim>\<open>- _ . ! ~ * ' ( )\<close>.
\<close>

definition uriUnescaped :: "16 word \<Rightarrow> bool" where
  "uriUnescaped c =
     ((0x41 \<le> c \<and> c \<le> 0x5A) \<or> (0x61 \<le> c \<and> c \<le> 0x7A) \<or> (0x30 \<le> c \<and> c \<le> 0x39)
      \<or> c \<in> set [0x2D, 0x5F, 0x2E, 0x21, 0x7E, 0x2A, 0x27, 0x28, 0x29])"

definition utf8 :: "nat \<Rightarrow> nat list" where
  "utf8 cp =
     (if cp < 0x80 then [cp]
      else if cp < 0x800 then [0xC0 + cp div 64, 0x80 + cp mod 64]
      else if cp < 0x10000 then [0xE0 + cp div 4096, 0x80 + (cp div 64) mod 64, 0x80 + cp mod 64]
      else [0xF0 + cp div 262144, 0x80 + (cp div 4096) mod 64, 0x80 + (cp div 64) mod 64,
            0x80 + cp mod 64])"

definition hexDigit :: "nat \<Rightarrow> 16 word" where
  "hexDigit d = (if d < 10 then of_nat (0x30 + d) else of_nat (0x37 + d))"

definition percentEncode :: "nat list \<Rightarrow> jsstring" where
  "percentEncode octets = concat (map (\<lambda>b. [0x25, hexDigit (b div 16), hexDigit (b mod 16)]) octets)"

definition surrogatePair :: "16 word \<Rightarrow> 16 word \<Rightarrow> nat" where
  "surrogatePair hi lo = 0x10000 + (unat hi - 0xD800) * 0x400 + (unat lo - 0xDC00)"

text \<open>
  The scan of ECMAScript's \<open>Encode\<close>: an unescaped unit is copied, any other code
  point is written as the percent-escapes of its UTF-8 octets, and an unpaired
  surrogate raises \<open>URIError\<close>, whatever was produced before it.
\<close>

fun encodeURIComponent :: "jsstring \<Rightarrow> thrown + jsstring" where
  "encodeURIComponent [] = Inr []"
| "encodeURIComponent (c # cs) =
     (if uriUnescaped c then
        (case encodeURIComponent cs of Inl e \<Rightarrow> Inl e | Inr r \<Rightarrow> Inr (c # r))
      else if isLowSurrogate c then Inl (URIError ''URI malformed'')
      else if isHighSurrogate c then
        (case cs of
           [] \<Rightarrow> Inl (URIError ''URI malformed'')
         | d # ds \<Rightarrow>
             if isLowSurrogate d then
               (case encodeURIComponent ds of
                  Inl e \<Rightarrow> Inl e
                | Inr r \<Rightarrow> Inr (percentEncode (utf8 (surrogatePair c d)) @ r))
             else Inl (URIError ''URI malformed''))
      else
        (case encodeURIComponent cs of
           Inl e \<Rightarrow> Inl e
         | Inr r \<Rightarrow> Inr (percentEncode (utf8 (unat c)) @ r)))"

text \<open>\<^verbatim>\<open>String.prototype.isWellFormed\<close>: no surrogate stands without its partner.\<close>

fun isWellFormed :: "jsstring \<Rightarrow> bool" where
  "isWellFormed [] = True"
| "isWellFormed (c # cs) =
     (if isLowSurrogate c then False
      else if isHighSurrogate c then
        (case cs of [] \<Rightarrow> False | d # ds \<Rightarrow> isLowSurrogate d \<and> isWellFormed ds)
      else isWellFormed cs)"

section \<open>The host\<close>

text \<open>
  Two built-ins the engine calls are not code of the repository and are handed to the
  model: Unicode's lower-case mapping behind \<^verbatim>\<open>String.prototype.toLowerCase\<close>, and the
  clock behind \<^verbatim>\<open>Date.now()\<close>. Every theorem below holds for any host.
\<close>

record host =
  toLowerCase :: "jsstring \<Rightarrow> jsstring"
  Date_now :: nat

text \<open>
  For concrete inputs: the Basic Latin part of the lower-case mapping, which is all of it
  on an ASCII query.
\<close>

definition basicLatinLower :: "jsstring \<Rightarrow> jsstring" where
  "basicLatinLower s = map (\<lambda>c. if 0x41 \<le> c \<and> c \<le> 0x5A then c + 0x20 else c) s"

definition basicLatinHost :: "nat \<Rightarrow> host" where
  "basicLatinHost now = \<lparr>toLowerCase = basicLatinLower, Date_now = now\<rparr>"

section \<open>Data model\<close>

text \<open>
  The object shapes the engine builds. \<open>params\<close> has one optional field for every key
  that a step's \<^verbatim>\<open>params\<close> object carries anywhere in the source (\<open>p_query\<close> is the
  key \<^verbatim>\<open>query\<close>, and so on); \<open>None\<close> is an absent key, read as \<^verbatim>\<open>undefined\<close>.
\<close>

record params =
  p_query :: "jsstring option"
  p_filters :: "string list option"
  p_format :: "string option"
  p_resolution :: "string option"
  p_model :: "string option"
  p_system_prompt :: "string option"
  p_depth :: "string option"
  p_safe_search :: "string option"
  p_filter :: "string option"

definition no_params :: params where
  "no_params = \<lparr>p_query = None, p_filters = None, p_format = None, p_resolution = None, p_model = None,
     p_system_prompt = None, p_depth = None, p_safe_search = None, p_filter = None\<rparr>"

record step =
  tool :: string
  params :: params

record intent =
  type :: string
  specialist :: string
  confidence :: rat
  breadth :: "string option"
  privacy_mode :: "string option"

record plan =
  plan_id :: string
  intent :: intent
  steps :: "step list"

text \<open>What the search provider returns: \<^verbatim>\<open>{title, url, snippet}\<close>.\<close>

record reference =
  title :: jsstring
  url :: jsstring
  snippet :: jsstring

text \<open>\<^verbatim>\<open>{...step.params, breadth}\<close>: the step's parameters and the breadth on top.\<close>

record search_options =
  step_params :: params
  search_breadth :: string

text \<open>
  An entry of the result buffer: \<^verbatim>\<open>{type: 'urls', data}\<close> or
  \<^verbatim>\<open>{type: 'content', source, data}\<close>.
\<close>

datatype intel = Urls "reference list" | Content reference jsstring

record audit =
  satisfaction :: rat
  missing_info :: "string option"

record alternative =
  label :: string
  desc :: string
  source :: string

record synthesis_result =
  answer :: jsstring
  sources :: "reference list"
  alternatives :: "alternative list"
  result_confidence :: rat

text \<open>The caller's options, \<^verbatim>\<open>{depth, privacy}\<close>; the default \<^verbatim>\<open>{}\<close> has neither.\<close>

record start_options =
  opt_depth :: "string option"
  opt_privacy :: "bool option"

section \<open>Capability providers\<close>

subsection \<open>WebSearcher.search\<close>

text \<open>
  The array literal is built element by element; the first \<^verbatim>\<open>encodeURIComponent(query)\<close>
  that raises rejects the call. The function has no state, so all six calls agree and
  one \<open>case\<close> stands for them.
\<close>

definition WebSearcher_search :: "jsstring \<Rightarrow> search_options \<Rightarrow> thrown + reference list" where
  "WebSearcher_search query options =
     (case encodeURIComponent query of
        Inl e \<Rightarrow> Inl e
      | Inr enc \<Rightarrow> Inr
         [\<lparr>title = js ''Unrestricted Results for '' @ query,
           url = js ''https://example.com/search?q='' @ enc,
           snippet = js ''Raw, unfiltered results for '' @ query @ js ''. Accessing deep web indices...''\<rparr>,
          \<lparr>title = js ''Community Discussion: '' @ query,
           url = js ''https://forum.adult-focus.net/t/'' @ enc,
           snippet = js ''User discussions and uncensored content regarding '' @ query @ js ''...''\<rparr>,
          \<lparr>title = js ''Video Archives: '' @ query,
           url = js ''https://tube-site.com/v/'' @ enc,
           snippet = js ''High-resolution video content found for '' @ query @ js ''. Duration: 12:05.''\<rparr>,
          \<lparr>title = js ''Contradicting View: Why '' @ query @ js '' is misunderstood'',
           url = js ''https://contrarian-blog.com/posts/'' @ enc,
           snippet = js ''Everyone thinks X, but actually Y. Here is the alternative perspective...''\<rparr>,
          \<lparr>title = js ''Technical Deep Dive: The physics of '' @ query,
           url = js ''https://science.org/abstract/'' @ enc,
           snippet = js ''Mathematical proof suggesting the standard model of '' @ query @ js '' is incomplete.''\<rparr>,
          \<lparr>title = js ''Legacy/Historical Data for '' @ query,
           url = js ''https://archive.org/wayback/'' @ enc,
           snippet = js ''In 1999, the consensus on '' @ query @ js '' was vastly different...''\<rparr>])"

subsection \<open>ContentScraper.read\<close>

text \<open>
  The loop hands \<^verbatim>\<open>read\<close> the reference object itself, which the template literal
  prints as \<^verbatim>\<open>[object Object]\<close>.
\<close>

definition ContentScraper_read :: "reference \<Rightarrow> thrown + jsstring" where
  "ContentScraper_read r =
     Inr (concat
       [[0x0A], js ''      [Content from [object Object]]'',
        [0x0A], js ''      This is the extracted main content from the web page. '',
        [0x0A], js ''      It contains detailed paragraphs, statistics, and claims that the Context Engine will ingest.'',
        [0x0A], js ''      Privacy Shield: This request was routed through Anonymizer Proxy.'',
        [0x0A], js ''      (Simulated Read)'',
        [0x0A], js ''    ''])"

section \<open>Coordinator\<close>

definition classifyIntent :: "host \<Rightarrow> jsstring \<Rightarrow> intent" where
  "classifyIntent H query =
     (let q = toLowerCase H query in
      if js_includes q (js ''compile'') \<or> js_includes q (js ''scene'') \<or> js_includes q (js ''video'')
         \<or> js_includes q (js ''movie'') then
        \<lparr>type = ''MEDIA_COMPILATION'', specialist = ''StudioDirector'', confidence = 0.9,
         breadth = None, privacy_mode = None\<rparr>
      else if js_includes q (js ''patent'') \<or> js_includes q (js ''offline'') \<or> js_includes q (js ''local'')
         \<or> js_includes q (js ''private'') then
        \<lparr>type = ''OFFLINE_ANALYSIS'', specialist = ''LocalAnalyst'', confidence = 0.95,
         breadth = None, privacy_mode = None\<rparr>
      else if js_includes q (js ''compare'') \<or> js_includes q (js ''research'') \<or> js_includes q (js ''find'')
         \<or> js_includes q (js ''why'') then
        \<lparr>type = ''DEEP_RESEARCH'', specialist = ''RecursiveAgent'', confidence = 0.85,
         breadth = Some ''massive'', privacy_mode = None\<rparr>
      else if js_includes q (js ''porn'') \<or> js_includes q (js ''xxx'') \<or> js_includes q (js ''adult'')
         \<or> js_includes q (js ''nsfw'') \<or> js_includes q (js ''sex'') then
        \<lparr>type = ''ADULT_CONTENT'', specialist = ''RecursiveAgent'', confidence = 0.99,
         breadth = Some ''massive'', privacy_mode = Some ''maximum''\<rparr>
      else
        \<lparr>type = ''GENERAL_QUERY'', specialist = ''QuickSearch'', confidence = 0.5,
         breadth = None, privacy_mode = None\<rparr>)"

definition generateSteps :: "intent \<Rightarrow> jsstring \<Rightarrow> step list" where
  "generateSteps i query =
     (if type i = ''MEDIA_COMPILATION'' then
        [\<lparr>tool = ''scout_videos'', params = no_params\<lparr>p_query := Some query\<rparr>\<rparr>,
         \<lparr>tool = ''analyze_scenes'', params = no_params\<lparr>p_filters := Some [''action'', ''dialogue'']\<rparr>\<rparr>,
         \<lparr>tool = ''compile_video'',
          params = no_params\<lparr>p_format := Some ''mp4'', p_resolution := Some ''1080p''\<rparr>\<rparr>]
      else if type i = ''OFFLINE_ANALYSIS'' then
        [\<lparr>tool = ''local_inference'',
          params = no_params\<lparr>p_model := Some ''llama-3'', p_system_prompt := Some ''expert_patent_attorney''\<rparr>\<rparr>]
      else if type i = ''ADULT_CONTENT'' then
        [\<lparr>tool = ''web_search'',
          params = no_params\<lparr>p_depth := Some ''deep'', p_safe_search := Some ''off''\<rparr>\<rparr>,
         \<lparr>tool = ''media_processor'', params = no_params\<lparr>p_filter := Some ''none''\<rparr>\<rparr>]
      else
        [\<lparr>tool = ''web_search'', params = no_params\<lparr>p_depth := Some ''recursive''\<rparr>\<rparr>])"

text \<open>
  \<^verbatim>\<open>Coordinator.plan\<close> has no \<^verbatim>\<open>throw\<close> and no check of the query; an \<^verbatim>\<open>async\<close>
  function that returns resolves, which is \<open>Inr\<close>.
\<close>

definition Coordinator_plan :: "host \<Rightarrow> jsstring \<Rightarrow> thrown + plan" where
  "Coordinator_plan H query =
     (let i = classifyIntent H query in
      Inr \<lparr>plan_id = ''plan-'' @ decimal (Date_now H), intent = i, steps = generateSteps i query\<rparr>)"

text \<open>
  The methods of \<^verbatim>\<open>Coordinator\<close> that the loop calls. The class declares
  \<^verbatim>\<open>plan\<close>, \<^verbatim>\<open>classifyIntent\<close> and \<^verbatim>\<open>generateSteps\<close> and nothing else, so
  the property \<^verbatim>\<open>Coordinator.replan\<close> is \<^verbatim>\<open>undefined\<close>: \<open>None\<close>. The record lets
  the loop be stated for any coordinator.
\<close>

record coordinator =
  plan_method :: "(jsstring \<Rightarrow> thrown + plan) option"
  replan_method :: "(jsstring \<Rightarrow> string option \<Rightarrow> thrown + plan) option"

definition Coordinator :: "host \<Rightarrow> coordinator" where
  "Coordinator H = \<lparr>plan_method = Some (Coordinator_plan H), replan_method = None\<rparr>"

text \<open>A call of a property that is \<^verbatim>\<open>undefined\<close> raises \<open>TypeError\<close>.\<close>

definition call_plan :: "coordinator \<Rightarrow> jsstring \<Rightarrow> thrown + plan" where
  "call_plan CO query =
     (case plan_method CO of
        None \<Rightarrow> Inl (TypeError ''Coordinator.plan is not a function'')
      | Some f \<Rightarrow> f query)"

definition call_replan :: "coordinator \<Rightarrow> jsstring \<Rightarrow> string option \<Rightarrow> thrown + plan" where
  "call_replan CO query missing =
     (case replan_method CO of
        None \<Rightarrow> Inl (TypeError ''Coordinator.replan is not a function'')
      | Some f \<Rightarrow> f query missing)"

section \<open>ContextGraph\<close>

text \<open>
  The object \<^verbatim>\<open>new ContextGraph()\<close>: its one own property \<^verbatim>\<open>sessionGraph\<close>, with
  nodes \<^verbatim>\<open>{id, label, type}\<close>.
\<close>

record node =
  node_id :: jsstring
  node_label :: jsstring
  node_type :: string

record sessionGraph =
  nodes :: "node list"
  edges :: "(jsstring \<times> jsstring) list"
  lastSnapshot :: "jsstring option"

definition new_ContextGraph :: sessionGraph where
  "new_ContextGraph = \<lparr>nodes = [], edges = [], lastSnapshot = None\<rparr>"

text \<open>
  The five methods the loop calls on its context store, each \<open>None\<close> where the object
  has no such property. The store is duck-typed, so the loop is stated over this record.
\<close>

record 'c store_methods =
  logInteraction :: "(string \<Rightarrow> plan \<Rightarrow> 'c \<Rightarrow> thrown + 'c) option"
  ingest :: "(intel list \<Rightarrow> 'c \<Rightarrow> thrown + 'c) option"
  getTotalWordCount :: "('c \<Rightarrow> thrown + nat) option"
  getSourceCount :: "('c \<Rightarrow> thrown + nat) option"
  getSources :: "('c \<Rightarrow> thrown + reference list) option"

text \<open>
  \<^verbatim>\<open>class ContextGraph\<close> declares \<^verbatim>\<open>constructor\<close>, \<^verbatim>\<open>processSnapshot\<close>,
  \<^verbatim>\<open>extractEntities\<close>, \<^verbatim>\<open>extractClaims\<close>, \<^verbatim>\<open>addNode\<close> and \<^verbatim>\<open>getGraph\<close>.
  None of the five names the loop reads is among them, nor on \<^verbatim>\<open>Object.prototype\<close>.
\<close>

definition ContextGraph_methods :: "sessionGraph store_methods" where
  "ContextGraph_methods =
     \<lparr>logInteraction = None, ingest = None, getTotalWordCount = None, getSourceCount = None,
      getSources = None\<rparr>"

definition call_logInteraction :: "'c store_methods \<Rightarrow> string \<Rightarrow> plan \<Rightarrow> 'c \<Rightarrow> thrown + 'c" where
  "call_logInteraction SM tag p ctx =
     (case logInteraction SM of
        None \<Rightarrow> Inl (TypeError ''context.logInteraction is not a function'')
      | Some f \<Rightarrow> f tag p ctx)"

definition call_ingest :: "'c store_methods \<Rightarrow> intel list \<Rightarrow> 'c \<Rightarrow> thrown + 'c" where
  "call_ingest SM newIntel ctx =
     (case ingest SM of
        None \<Rightarrow> Inl (TypeError ''context.ingest is not a function'')
      | Some f \<Rightarrow> f newIntel ctx)"

definition call_getTotalWordCount :: "'c store_methods \<Rightarrow> 'c \<Rightarrow> thrown + nat" where
  "call_getTotalWordCount SM ctx =
     (case getTotalWordCount SM of
        None \<Rightarrow> Inl (TypeError ''context.getTotalWordCount is not a function'')
      | Some f \<Rightarrow> f ctx)"

definition call_getSourceCount :: "'c store_methods \<Rightarrow> 'c \<Rightarrow> thrown + nat" where
  "call_getSourceCount SM ctx =
     (case getSourceCount SM of
        None \<Rightarrow> Inl (TypeError ''context.getSourceCount is not a function'')
      | Some f \<Rightarrow> f ctx)"

definition call_getSources :: "'c store_methods \<Rightarrow> 'c \<Rightarrow> thrown + reference list" where
  "call_getSources SM ctx =
     (case getSources SM of
        None \<Rightarrow> Inl (TypeError ''context.getSources is not a function'')
      | Some f \<Rightarrow> f ctx)"

section \<open>Looper\<close>

text \<open>
  The looper object holds its two providers. A provider is external I/O: it reads and
  changes a world \<open>'w\<close> (the network, a call log) and returns or throws, so it may
  answer the same call differently each time. A call that never settles is outside the
  model.
\<close>

record 'w looper =
  searcher :: "jsstring \<Rightarrow> search_options \<Rightarrow> 'w \<Rightarrow> (thrown + reference list) \<times> 'w"
  scraper :: "reference \<Rightarrow> 'w \<Rightarrow> (thrown + jsstring) \<times> 'w"

text \<open>The constructor: the bundled \<^verbatim>\<open>WebSearcher\<close> and \<^verbatim>\<open>ContentScraper\<close>.\<close>

definition new_Looper :: "'w looper" where
  "new_Looper =
     \<lparr>searcher = (\<lambda>query options w. (WebSearcher_search query options, w)),
      scraper = (\<lambda>r w. (ContentScraper_read r, w))\<rparr>"

subsection \<open>executeSteps\<close>

text \<open>
  The body of \<^verbatim>\<open>executeSteps(steps, context)\<close> reads two identifiers that are neither
  its parameters nor its locals: \<^verbatim>\<open>plan\<close> and \<^verbatim>\<open>query\<close>. Such a read goes to the
  enclosing scopes, and raises \<open>ReferenceError\<close> when none binds the name. The scope is
  made explicit; \<open>module_scope\<close> is the one the file gives the method: the module binds
  \<^verbatim>\<open>Coordinator\<close>, \<^verbatim>\<open>WebSearcher\<close>, \<^verbatim>\<open>ContentScraper\<close>, \<^verbatim>\<open>ContextGraph\<close> and
  \<^verbatim>\<open>Looper\<close>, and nothing in the repository defines a global of either name.
\<close>

record scope =
  plan_binding :: "plan option"
  query_binding :: "jsstring option"

definition module_scope :: scope where
  "module_scope = \<lparr>plan_binding = None, query_binding = None\<rparr>"

text \<open>
  The inner loop over \<^verbatim>\<open>urls.slice(0, 2)\<close>: the first read that throws leaves the loop
  (and the \<^verbatim>\<open>try\<close> block); what was pushed before stays in \<^verbatim>\<open>results\<close>.
\<close>

fun deepDive :: "'w looper \<Rightarrow> reference list \<Rightarrow> 'w \<Rightarrow> thrown option \<times> intel list \<times> 'w" where
  "deepDive L [] w = (None, [], w)"
| "deepDive L (u # us) w =
     (case scraper L u w of
        (Inl e, w1) \<Rightarrow> (Some e, [], w1)
      | (Inr content, w1) \<Rightarrow>
          (case deepDive L us w1 of (r, pushed, w2) \<Rightarrow> (r, Content u content # pushed, w2)))"

text \<open>
  The object literal \<^verbatim>\<open>{...step.params, breadth: plan.intent?.breadth || 'standard'}\<close>,
  once \<^verbatim>\<open>plan\<close> has been read: an absent or empty breadth gives \<^verbatim>\<open>'standard'\<close>.
\<close>

definition searchOptions :: "plan \<Rightarrow> step \<Rightarrow> search_options" where
  "searchOptions p s =
     \<lparr>step_params = params s,
      search_breadth =
        (case breadth (intent p) of
           None \<Rightarrow> ''standard''
         | Some b \<Rightarrow> if b = [] then ''standard'' else b)\<rparr>"

text \<open>
  The argument \<^verbatim>\<open>step.params.query || query\<close>: the identifier \<^verbatim>\<open>query\<close> is read
  only when the step's own query is absent or empty.
\<close>

definition query_argument :: "scope \<Rightarrow> step \<Rightarrow> thrown + jsstring" where
  "query_argument sc s =
     (case p_query (params s) of
        Some q \<Rightarrow>
          if q = [] then
            (case query_binding sc of
               None \<Rightarrow> Inl (ReferenceError ''query is not defined'')
             | Some q' \<Rightarrow> Inr q')
          else Inr q
      | None \<Rightarrow>
          (case query_binding sc of
             None \<Rightarrow> Inl (ReferenceError ''query is not defined'')
           | Some q' \<Rightarrow> Inr q'))"

text \<open>
  The \<^verbatim>\<open>try\<close> block for one step; \<^verbatim>\<open>searchOptions\<close> is evaluated first, so
  \<^verbatim>\<open>plan\<close> is read before anything else. Only the tool \<^verbatim>\<open>'web_search'\<close> has a
  branch. The result is the thrown value if any, the entries pushed, and the world.
\<close>

definition try_step :: "scope \<Rightarrow> 'w looper \<Rightarrow> step \<Rightarrow> 'w \<Rightarrow> thrown option \<times> intel list \<times> 'w" where
  "try_step sc L s w =
     (if tool s = ''web_search'' then
        (case plan_binding sc of
           None \<Rightarrow> (Some (ReferenceError ''plan is not defined''), [], w)
         | Some p \<Rightarrow>
             (case query_argument sc s of
                Inl e \<Rightarrow> (Some e, [], w)
              | Inr q \<Rightarrow>
                  (case searcher L q (searchOptions p s) w of
                     (Inl e, w1) \<Rightarrow> (Some e, [], w1)
                   | (Inr urls, w1) \<Rightarrow>
                       (case deepDive L (take 2 urls) w1 of
                          (r, pushed, w2) \<Rightarrow> (r, Urls urls # pushed, w2)))))
      else (None, [], w))"

text \<open>
  The \<^verbatim>\<open>for\<close> loop over the steps: the \<^verbatim>\<open>catch\<close> only logs, so whatever a step
  threw is dropped and the next step runs. The context argument is never used.
\<close>

fun executeSteps_in :: "scope \<Rightarrow> 'w looper \<Rightarrow> step list \<Rightarrow> 'c \<Rightarrow> 'w \<Rightarrow> intel list \<times> 'w" where
  "executeSteps_in sc L [] ctx w = ([], w)"
| "executeSteps_in sc L (s # ss) ctx w =
     (case try_step sc L s w of
        (err, pushed, w1) \<Rightarrow>
          (case executeSteps_in sc L ss ctx w1 of (rest, w2) \<Rightarrow> (pushed @ rest, w2)))"

definition executeSteps :: "'w looper \<Rightarrow> step list \<Rightarrow> 'c \<Rightarrow> 'w \<Rightarrow> intel list \<times> 'w" where
  "executeSteps L ss ctx w = executeSteps_in module_scope L ss ctx w"

subsection \<open>evaluateProgress and synthesize\<close>

text \<open>
  The scores are the decimal literals of the source as rationals; the doubles they
  denote compare with each other and with \<open>0.85\<close> as the rationals do.
\<close>

definition evaluateProgress :: "'c store_methods \<Rightarrow> jsstring \<Rightarrow> 'c \<Rightarrow> thrown + audit" where
  "evaluateProgress SM query ctx =
     (case call_getTotalWordCount SM ctx of
        Inl e \<Rightarrow> Inl e
      | Inr wordCount \<Rightarrow>
          if wordCount > 1000 then Inr \<lparr>satisfaction = 0.9, missing_info = None\<rparr>
          else if wordCount > 500 then
            Inr \<lparr>satisfaction = 0.7, missing_info = Some ''Need more details''\<rparr>
          else Inr \<lparr>satisfaction = 0.3, missing_info = Some ''Search failed to yield content''\<rparr>)"

definition synthesize :: "'c store_methods \<Rightarrow> jsstring \<Rightarrow> 'c \<Rightarrow> thrown + synthesis_result" where
  "synthesize SM query ctx =
     (case call_getSourceCount SM ctx of
        Inl e \<Rightarrow> Inl e
      | Inr n \<Rightarrow>
          (case call_getSources SM ctx of
             Inl e \<Rightarrow> Inl e
           | Inr srcs \<Rightarrow> Inr
              \<lparr>answer = js (''Based on recursive analysis of '' @ decimal n @
                 '' sources, the primary consensus is coherent. However, divergent timelines and alternative theories were found.''),
               sources = take 3 srcs,
               alternatives =
                 [\<lparr>label = ''Contrarian Viewpoint'',
                   desc = ''Some sources argue the opposite effect observed in main studies.'',
                   source = ''https://contrarian-blog.com''\<rparr>,
                  \<lparr>label = ''Historical Divergence'',
                   desc = ''Pre-2000 data suggests a different trend.'',
                   source = ''https://archive.org''\<rparr>],
               result_confidence = 0.95\<rparr>))"

subsection \<open>start\<close>

definition maxIterations :: "start_options \<Rightarrow> nat" where
  "maxIterations options = (if opt_depth options = Some ''deep'' then 4 else 2)"

text \<open>
  The \<^verbatim>\<open>while\<close> loop. Its result is what leaves the loop (a thrown value, or the context
  store at \<^verbatim>\<open>break\<close> or at the end of the budget), the number of calls of
  \<^verbatim>\<open>evaluateProgress\<close> made so far, and the world.
\<close>

function research_loop ::
  "'c store_methods \<Rightarrow> coordinator \<Rightarrow> 'w looper \<Rightarrow> jsstring \<Rightarrow> nat \<Rightarrow> nat \<Rightarrow> plan \<Rightarrow> 'c \<Rightarrow> 'w \<Rightarrow> nat
     \<Rightarrow> (thrown + 'c) \<times> nat \<times> 'w" where
  "research_loop SM CO L query maxI iterations p ctx w evals =
     (if iterations < maxI then
        (case executeSteps L (steps p) ctx w of
           (newIntel, w1) \<Rightarrow>
             (case call_ingest SM newIntel ctx of
                Inl e \<Rightarrow> (Inl e, evals, w1)
              | Inr ctx1 \<Rightarrow>
                  (case evaluateProgress SM query ctx1 of
                     Inl e \<Rightarrow> (Inl e, Suc evals, w1)
                   | Inr a \<Rightarrow>
                       if satisfaction a > 0.85 then (Inr ctx1, Suc evals, w1)
                       else
                         (case call_replan CO query (missing_info a) of
                            Inl e \<Rightarrow> (Inl e, Suc evals, w1)
                          | Inr p1 \<Rightarrow>
                              research_loop SM CO L query maxI (Suc iterations) p1 ctx1 w1 (Suc evals)))))
      else (Inr ctx, evals, w))"
  by pat_completeness auto
termination
  by (relation "measure (\<lambda>(SM, CO, L, query, maxI, iterations, p, ctx, w, evals). maxI - iterations)") auto

declare research_loop.simps [simp del]

text \<open>
  \<^verbatim>\<open>Looper.start\<close> over any context store (its methods and its fresh state) and any
  coordinator. The result is the resolved value or the rejection, the number of
  evaluator calls, and the world.
\<close>

definition start_with ::
  "'c store_methods \<Rightarrow> 'c \<Rightarrow> coordinator \<Rightarrow> 'w looper \<Rightarrow> jsstring \<Rightarrow> start_options \<Rightarrow> 'w
     \<Rightarrow> (thrown + synthesis_result) \<times> nat \<times> 'w" where
  "start_with SM fresh CO L query options w =
     (case call_plan CO query of
        Inl e \<Rightarrow> (Inl e, 0, w)
      | Inr p \<Rightarrow>
          (case call_logInteraction SM ''PLAN_CREATED'' p fresh of
             Inl e \<Rightarrow> (Inl e, 0, w)
           | Inr ctx \<Rightarrow>
               (case research_loop SM CO L query (maxIterations options) 0 p ctx w 0 of
                  (Inl e, evals, w1) \<Rightarrow> (Inl e, evals, w1)
                | (Inr ctx1, evals, w1) \<Rightarrow> (synthesize SM query ctx1, evals, w1))))"

text \<open>\<^verbatim>\<open>Looper.start\<close> as the repository wires it: \<^verbatim>\<open>new ContextGraph()\<close> and \<^verbatim>\<open>Coordinator\<close>.\<close>

definition start :: "host \<Rightarrow> 'w looper \<Rightarrow> jsstring \<Rightarrow> start_options \<Rightarrow> 'w \<Rightarrow> (thrown + synthesis_result) \<times> nat \<times> 'w" where
  "start H L query options w =
     start_with ContextGraph_methods new_ContextGraph (Coordinator H) L query options w"

section \<open>The classifier as the specification words it\<close>

text \<open>
  "Rules in a fixed priority order, the first match wins, and the catch-all category
  applies when no rule matches": a rule is a set of keywords and the intent it gives.
\<close>

definition intent_rules :: "(string list \<times> intent) list" where
  "intent_rules =
     [([''compile'', ''scene'', ''video'', ''movie''],
       \<lparr>type = ''MEDIA_COMPILATION'', specialist = ''StudioDirector'', confidence = 0.9,
        breadth = None, privacy_mode = None\<rparr>),
      ([''patent'', ''offline'', ''local'', ''private''],
       \<lparr>type = ''OFFLINE_ANALYSIS'', specialist = ''LocalAnalyst'', confidence = 0.95,
        breadth = None, privacy_mode = None\<rparr>),
      ([''compare'', ''research'', ''find'', ''why''],
       \<lparr>type = ''DEEP_RESEARCH'', specialist = ''RecursiveAgent'', confidence = 0.85,
        breadth = Some ''massive'', privacy_mode = None\<rparr>),
      ([''porn'', ''xxx'', ''adult'', ''nsfw'', ''sex''],
       \<lparr>type = ''ADULT_CONTENT'', specialist = ''RecursiveAgent'', confidence = 0.99,
        breadth = Some ''massive'', privacy_mode = Some ''maximum''\<rparr>)]"

definition catch_all :: intent where
  "catch_all =
     \<lparr>type = ''GENERAL_QUERY'', specialist = ''QuickSearch'', confidence = 0.5,
      breadth = None, privacy_mode = None\<rparr>"

definition rule_matches :: "jsstring \<Rightarrow> string list \<times> intent \<Rightarrow> bool" where
  "rule_matches q r = list_ex (\<lambda>k. js_includes q (js k)) (fst r)"

definition classify_first_match :: "host \<Rightarrow> jsstring \<Rightarrow> intent" where
  "classify_first_match H query =
     (case find (rule_matches (toLowerCase H query)) intent_rules of
        None \<Rightarrow> catch_all
      | Some r \<Rightarrow> snd r)"

section \<open>Inputs for the concrete cases\<close>

text \<open>
  Objects handed to the engine in the concrete cases below; none of them is code of the
  repository. \<open>countingStore\<close> is a context store that has the five methods the loop
  calls: its state is its word count, and it ingests nothing. \<open>replanningCoordinator\<close>
  has a \<^verbatim>\<open>replan\<close> that plans again.
\<close>

definition countingStore :: "nat store_methods" where
  "countingStore =
     \<lparr>logInteraction = Some (\<lambda>tag p c. Inr c), ingest = Some (\<lambda>newIntel c. Inr c),
      getTotalWordCount = Some Inr, getSourceCount = Some (\<lambda>c. Inr 0),
      getSources = Some (\<lambda>c. Inr [])\<rparr>"

definition replanningCoordinator :: "host \<Rightarrow> coordinator" where
  "replanningCoordinator H =
     \<lparr>plan_method = Some (Coordinator_plan H),
      replan_method = Some (\<lambda>query missing. Coordinator_plan H query)\<rparr>"

text \<open>
  Scenario D of the specification: the search provider returns two references, the read
  provider throws for the first and succeeds for the second. The world is the list of
  references handed to the read provider so far.
\<close>

definition ref1 :: reference where
  "ref1 = \<lparr>title = js ''one'', url = js ''https://a.example/1'', snippet = js ''first''\<rparr>"

definition ref2 :: reference where
  "ref2 = \<lparr>title = js ''two'', url = js ''https://a.example/2'', snippet = js ''second''\<rparr>"

definition scenarioD :: "reference list looper" where
  "scenarioD =
     \<lparr>searcher = (\<lambda>query options w. (Inr [ref1, ref2], w)),
      scraper = (\<lambda>r w. (if r = ref1 then Inl ContentUnreadable else Inr (js ''text of two''), w @ [r]))\<rparr>"

definition search_step :: step where
  "search_step = \<lparr>tool = ''web_search'', params = no_params\<lparr>p_depth := Some ''recursive''\<rparr>\<rparr>"

section \<open>Properties of the providers\<close>

lemma uriUnescaped_not_surrogate:
  assumes "uriUnescaped c"
  shows "\<not> isLowSurrogate c" and "\<not> isHighSurrogate c"
proof -
  from assms have "unat c < 0x80"
    by (auto simp: uriUnescaped_def word_le_nat_alt)
  then show "\<not> isLowSurrogate c" and "\<not> isHighSurrogate c"
    by (auto simp: isLowSurrogate_def isHighSurrogate_def word_le_nat_alt)
qed

text \<open>
  \<^verbatim>\<open>encodeURIComponent\<close> returns exactly on the well-formed strings, and what it throws
  otherwise is the one \<open>URIError\<close>. The induction follows the scan, which skips two
  units at a surrogate pair.
\<close>

lemma encodeURIComponent_cases:
  "(isWellFormed q \<and> (\<exists>r. encodeURIComponent q = Inr r))
   \<or> (\<not> isWellFormed q \<and> encodeURIComponent q = Inl (URIError ''URI malformed''))"
proof (induction q rule: encodeURIComponent.induct)
  case 1
  show ?case by simp
next
  case (2 c cs)
  show ?case
  proof (cases "uriUnescaped c")
    case True
    then have nl: "\<not> isLowSurrogate c" and nh: "\<not> isHighSurrogate c"
      by (rule uriUnescaped_not_surrogate)+
    from True nl nh 2(1) show ?thesis
      by (cases "encodeURIComponent cs") auto
  next
    case False
    note nu = False
    show ?thesis
    proof (cases "isLowSurrogate c")
      case True
      with nu show ?thesis by simp
    next
      case False
      note nl = False
      show ?thesis
      proof (cases "isHighSurrogate c")
        case True
        show ?thesis
        proof (cases cs)
          case Nil
          with nu nl True show ?thesis by simp
        next
          case (Cons d ds)
          show ?thesis
          proof (cases "isLowSurrogate d")
            case dl: True
            from 2(2)[OF nu nl True Cons dl] nu nl True Cons dl show ?thesis
              by (cases "encodeURIComponent ds") auto
          next
            case dl: False
            with nu nl True Cons show ?thesis by simp
          qed
        qed
      next
        case False
        from 2(3)[OF nu nl False] nu nl False show ?thesis
          by (cases "encodeURIComponent cs") auto
      qed
    qed
  qed
qed

text \<open>
  C10, as the code has it. \<^verbatim>\<open>WebSearcher.search\<close> returns exactly six references, each
  with a url that ends in the URI-encoded query, for every query that is well-formed
  UTF-16 and every options object; for a query with an unpaired surrogate
  \<^verbatim>\<open>encodeURIComponent\<close> raises \<open>URIError\<close> and the search fails with it. It never
  returns an empty sequence.
\<close>

theorem WebSearcher_search_wellFormed:
  "(isWellFormed query \<longrightarrow>
      (\<exists>enc refs. encodeURIComponent query = Inr enc
         \<and> WebSearcher_search query options = Inr refs
         \<and> length refs = 6 \<and> list_all (\<lambda>r. suffix enc (url r)) refs))
   \<and> (\<not> isWellFormed query \<longrightarrow>
         WebSearcher_search query options = Inl (URIError ''URI malformed''))
   \<and> WebSearcher_search query options \<noteq> Inr []"
proof (cases "isWellFormed query")
  case True
  with encodeURIComponent_cases [of query] obtain enc where enc: "encodeURIComponent query = Inr enc"
    by auto
  have "suffix enc (pre @ enc)" for pre :: jsstring
    by (rule suffix_appendI) simp
  with True enc show ?thesis
    by (simp add: WebSearcher_search_def)
next
  case False
  with encodeURIComponent_cases [of query]
  have "encodeURIComponent query = Inl (URIError ''URI malformed'')"
    by auto
  with False show ?thesis
    by (simp add: WebSearcher_search_def)
qed

text \<open>The query \<^verbatim>\<open>a b\<close> and the lone high surrogate of an emoji.\<close>

theorem WebSearcher_search_wellFormed_witness:
  "isWellFormed (js ''a b'') \<and> \<not> isWellFormed [0xD83D] \<and>
   map url (projr (WebSearcher_search (js ''a b'') \<lparr>step_params = no_params, search_breadth = ''standard''\<rparr>))
     = [js ''https://example.com/search?q=a%20b'', js ''https://forum.adult-focus.net/t/a%20b'',
        js ''https://tube-site.com/v/a%20b'', js ''https://contrarian-blog.com/posts/a%20b'',
        js ''https://science.org/abstract/a%20b'', js ''https://archive.org/wayback/a%20b'']
   \<and> WebSearcher_search [0xD83D] \<lparr>step_params = no_params, search_breadth = ''standard''\<rparr>
     = Inl (URIError ''URI malformed'')"
  using WebSearcher_search_wellFormed [of "js ''a b''" "\<lparr>step_params = no_params, search_breadth = ''standard''\<rparr>"]
    WebSearcher_search_wellFormed [of "[0xD83D]" "\<lparr>step_params = no_params, search_breadth = ''standard''\<rparr>"]
  by (simp add: js_def WebSearcher_search_def uriUnescaped_def isLowSurrogate_def isHighSurrogate_def
        utf8_def percentEncode_def hexDigit_def)

text \<open>
  The search does fail: on the one-unit query \<^verbatim>\<open>"\ud800"\<close>, which a JSON body can carry,
  the first \<^verbatim>\<open>encodeURIComponent(query)\<close> throws and no array is returned.
\<close>

theorem WebSearcher_search_lone_surrogate:
  "WebSearcher_search [0xD800] \<lparr>step_params = no_params, search_breadth = ''standard''\<rparr>
     = Inl (URIError ''URI malformed'')"
  by (simp add: WebSearcher_search_def uriUnescaped_def isLowSurrogate_def isHighSurrogate_def)

section \<open>Properties of the coordinator\<close>

lemma generateSteps_nonempty: "generateSteps i query \<noteq> []"
  by (simp add: generateSteps_def)

text \<open>
  C6, as the code has it. \<^verbatim>\<open>Coordinator.plan\<close> checks nothing: it never fails, not on
  the empty or a whitespace-only query either, and for every query it returns a Plan
  whose steps list is non-empty. It is handed no provider and calls none.
\<close>

theorem Coordinator_plan_never_fails:
  "\<exists>p. Coordinator_plan H query = Inr p \<and> steps p \<noteq> []"
proof -
  let ?i = "classifyIntent H query"
  have "Coordinator_plan H query
          = Inr \<lparr>plan_id = ''plan-'' @ decimal (Date_now H), intent = ?i, steps = generateSteps ?i query\<rparr>"
    by (simp add: Coordinator_plan_def Let_def)
  moreover have "generateSteps ?i query \<noteq> []"
    by (rule generateSteps_nonempty)
  ultimately show ?thesis by simp
qed

theorem Coordinator_plan_never_fails_witness:
  "\<exists>p. Coordinator_plan (basicLatinHost 0) (js ''why is the sky blue'') = Inr p \<and> steps p \<noteq> []"
  by (rule Coordinator_plan_never_fails)

text \<open>
  The empty query and a query of three spaces are planned like any other: no rule
  matches, and the plan is the general one with its single search step.
\<close>

theorem Coordinator_plan_empty_query:
  "Coordinator_plan (basicLatinHost 0) (js '''')
     = Inr \<lparr>plan_id = ''plan-0'',
            intent = \<lparr>type = ''GENERAL_QUERY'', specialist = ''QuickSearch'', confidence = 0.5,
                      breadth = None, privacy_mode = None\<rparr>,
            steps = [\<lparr>tool = ''web_search'', params = no_params\<lparr>p_depth := Some ''recursive''\<rparr>\<rparr>]\<rparr>
   \<and> Coordinator_plan (basicLatinHost 0) (js ''   '')
     = Inr \<lparr>plan_id = ''plan-0'',
            intent = \<lparr>type = ''GENERAL_QUERY'', specialist = ''QuickSearch'', confidence = 0.5,
                      breadth = None, privacy_mode = None\<rparr>,
            steps = [\<lparr>tool = ''web_search'', params = no_params\<lparr>p_depth := Some ''recursive''\<rparr>\<rparr>]\<rparr>"
  by code_simp

lemma classifyIntent_first_match: "classifyIntent H query = classify_first_match H query"
  by (simp add: classifyIntent_def classify_first_match_def intent_rules_def rule_matches_def
        catch_all_def Let_def)

lemma catch_all_least: "list_all (\<lambda>r. confidence catch_all \<le> confidence (snd r)) intent_rules"
  by (simp add: intent_rules_def catch_all_def)

text \<open>
  C8. \<^verbatim>\<open>classifyIntent\<close> reads nothing but its argument, so the same query gives the
  same category; it is the first-match classifier over the four rules in their order,
  with the catch-all when none matches; and the catch-all's confidence is the least.
\<close>

theorem classifyIntent_deterministic_first_match:
  "(query1 = query2 \<longrightarrow> type (classifyIntent H query1) = type (classifyIntent H query2))
   \<and> classifyIntent H query = classify_first_match H query
   \<and> list_all (\<lambda>r. confidence catch_all \<le> confidence (snd r)) intent_rules"
  by (simp add: classifyIntent_first_match catch_all_least)

text \<open>
  A query that matches the first, the second and the third rule gets the first rule's
  category; one that matches none gets the catch-all.
\<close>

theorem classifyIntent_deterministic_first_match_witness:
  "type (classifyIntent (basicLatinHost 0) (js ''Compare private video'')) = ''MEDIA_COMPILATION''
   \<and> classifyIntent (basicLatinHost 0) (js ''hello'') = catch_all
   \<and> confidence catch_all = 0.5"
  using classifyIntent_deterministic_first_match
    [of "js ''Compare private video''" "js ''Compare private video''" "basicLatinHost 0" "js ''hello''"]
  by code_simp

text \<open>
  C5 fails on the code: \<^verbatim>\<open>Coordinator\<close> has no \<^verbatim>\<open>replan\<close>, so the call the loop makes
  on an unsatisfied iteration raises \<open>TypeError\<close> for every query and every feedback
  text, and no Plan is returned.
\<close>

theorem Coordinator_replan_raises:
  "call_replan (Coordinator H) query missing
     = Inl (TypeError ''Coordinator.replan is not a function'')"
  by (simp add: call_replan_def Coordinator_def)

section \<open>Properties of the context store\<close>

text \<open>
  C7 fails on the code: \<^verbatim>\<open>ContextGraph\<close> has neither \<^verbatim>\<open>ingest\<close> nor
  \<^verbatim>\<open>getTotalWordCount\<close>. Every ingestion raises \<open>TypeError\<close> and leaves no store behind,
  and there is no word count to compare.
\<close>

theorem ContextGraph_ingest_raises:
  "call_ingest ContextGraph_methods newIntel g = Inl (TypeError ''context.ingest is not a function'')
   \<and> call_getTotalWordCount ContextGraph_methods g
       = Inl (TypeError ''context.getTotalWordCount is not a function'')"
  by (simp add: call_ingest_def call_getTotalWordCount_def ContextGraph_methods_def)

section \<open>Properties of executeSteps\<close>

lemma try_step_module_scope:
  "try_step module_scope L s w =
     (if tool s = ''web_search'' then Some (ReferenceError ''plan is not defined'') else None, [], w)"
  by (simp add: try_step_def module_scope_def)

lemma executeSteps_in_module_scope: "executeSteps_in module_scope L ss ctx w = ([], w)"
proof (induction ss)
  case Nil
  show ?case by simp
next
  case (Cons s ss)
  then show ?case by (simp add: try_step_module_scope)
qed

text \<open>
  C9. For every list of steps and every pair of providers, \<^verbatim>\<open>executeSteps\<close> returns the
  empty buffer and leaves the world as it was (no provider is called): a
  \<^verbatim>\<open>'web_search'\<close> step throws \<open>ReferenceError\<close> at the read of \<^verbatim>\<open>plan\<close>, before
  anything is pushed, and the \<^verbatim>\<open>catch\<close> drops it; a step with another tool pushes nothing.
\<close>

theorem executeSteps_empty:
  "executeSteps L ss ctx w = ([], w)
   \<and> try_step module_scope L s w =
       (if tool s = ''web_search'' then Some (ReferenceError ''plan is not defined'') else None, [], w)"
  by (simp add: executeSteps_def executeSteps_in_module_scope try_step_module_scope)

theorem executeSteps_empty_witness:
  "executeSteps new_Looper [search_step, search_step] () () = ([], ())
   \<and> try_step module_scope new_Looper search_step ()
       = (Some (ReferenceError ''plan is not defined''), [], ())"
  using executeSteps_empty [of new_Looper "[search_step, search_step]" "()" "()" search_step]
  by (simp add: search_step_def)

text \<open>
  C3 fails on the code. In Scenario D the search provider has two references to give,
  and the read provider would throw for the first and return for the second. The search
  step never gets that far: it throws \<open>ReferenceError\<close> at the read of \<^verbatim>\<open>plan\<close>, so
  neither provider is called (the world, the list of references read, stays empty) and
  the buffer is empty. The second reference's content is not added and nothing is there
  to ingest. A step that follows the failed one still runs, and ends the same way.
\<close>

theorem executeSteps_scenarioD:
  "try_step module_scope scenarioD search_step []
     = (Some (ReferenceError ''plan is not defined''), [], [])
   \<and> executeSteps scenarioD [search_step] () [] = ([], [])
   \<and> executeSteps scenarioD [search_step, search_step] () [] = ([], [])"
proof (intro conjI)
  have "tool search_step = ''web_search''"
    by (simp add: search_step_def)
  then show "try_step module_scope scenarioD search_step []
               = (Some (ReferenceError ''plan is not defined''), [], [])"
    by (simp add: try_step_module_scope)
next
  show "executeSteps scenarioD [search_step] () [] = ([], [])"
    unfolding executeSteps_def by (rule executeSteps_in_module_scope)
next
  show "executeSteps scenarioD [search_step, search_step] () [] = ([], [])"
    unfolding executeSteps_def by (rule executeSteps_in_module_scope)
qed

section \<open>Properties of the evaluator\<close>

text \<open>
  C4, as the code has it. The comparisons are strict. For every context store whose
  \<^verbatim>\<open>getTotalWordCount()\<close> returns more than 1000, \<^verbatim>\<open>evaluateProgress\<close> returns an
  Audit with satisfaction 0.9, which is at least 0.85, and no missing-info message;
  below 500 words it returns satisfaction 0.3 with the message that the search failed to
  yield content.
\<close>

theorem evaluateProgress_thresholds:
  assumes "call_getTotalWordCount SM ctx = Inr wordCount"
  shows "(1000 < wordCount \<longrightarrow>
            (\<exists>a. evaluateProgress SM query ctx = Inr a \<and> satisfaction a = 0.9
               \<and> 0.85 \<le> satisfaction a \<and> missing_info a = None))
         \<and> (wordCount < 500 \<longrightarrow>
            (\<exists>a. evaluateProgress SM query ctx = Inr a \<and> satisfaction a = 0.3
               \<and> missing_info a = Some ''Search failed to yield content''))"
proof (intro conjI impI)
  assume "1000 < wordCount"
  with assms have "evaluateProgress SM query ctx = Inr \<lparr>satisfaction = 0.9, missing_info = None\<rparr>"
    by (simp add: evaluateProgress_def)
  then show "\<exists>a. evaluateProgress SM query ctx = Inr a \<and> satisfaction a = 0.9
               \<and> 0.85 \<le> satisfaction a \<and> missing_info a = None"
    by simp
next
  assume "wordCount < 500"
  with assms have "evaluateProgress SM query ctx
      = Inr \<lparr>satisfaction = 0.3, missing_info = Some ''Search failed to yield content''\<rparr>"
    by (simp add: evaluateProgress_def)
  then show "\<exists>a. evaluateProgress SM query ctx = Inr a \<and> satisfaction a = 0.3
               \<and> missing_info a = Some ''Search failed to yield content''"
    by simp
qed

text \<open>A store of 1001 words and a store of 499 words.\<close>

theorem evaluateProgress_thresholds_witness:
  "evaluateProgress countingStore (js ''why'') 1001 = Inr \<lparr>satisfaction = 0.9, missing_info = None\<rparr>
   \<and> evaluateProgress countingStore (js ''why'') 499
       = Inr \<lparr>satisfaction = 0.3, missing_info = Some ''Search failed to yield content''\<rparr>"
proof -
  have w: "call_getTotalWordCount countingStore n = Inr n" for n
    by (simp add: call_getTotalWordCount_def countingStore_def)
  from evaluateProgress_thresholds [OF w [of 1001], of "js ''why''"]
       evaluateProgress_thresholds [OF w [of 499], of "js ''why''"]
  show ?thesis by auto
qed

text \<open>
  At exactly 1000 words the store is not yet over the high threshold: the Audit has
  satisfaction 0.7 and carries a missing-info message.
\<close>

theorem evaluateProgress_at_1000:
  "call_getTotalWordCount countingStore 1000 = Inr 1000
   \<and> evaluateProgress countingStore (js ''why'') 1000
       = Inr \<lparr>satisfaction = 0.7, missing_info = Some ''Need more details''\<rparr>
   \<and> (0.7 :: rat) < 0.85"
  by (simp add: evaluateProgress_def call_getTotalWordCount_def countingStore_def)

section \<open>Properties of the loop\<close>

text \<open>
  Every pass through the loop body calls the evaluator at most once and, unless it
  leaves the loop, increments \<^verbatim>\<open>iterations\<close>. The induction is the loop's own.
\<close>

lemma research_loop_evals:
  "fst (snd (research_loop SM CO L query maxI i p ctx w n)) \<le> n + (maxI - i)"
proof (induction SM CO L query maxI i p ctx w n rule: research_loop.induct)
  case (1 SM CO L query maxI iterations p ctx w evals)
  show ?case
  proof (cases "iterations < maxI")
    case False
    then show ?thesis by (subst research_loop.simps) simp
  next
    case True
    obtain newIntel w1 where ex: "executeSteps L (steps p) ctx w = (newIntel, w1)"
      by (cases "executeSteps L (steps p) ctx w")
    show ?thesis
    proof (cases "call_ingest SM newIntel ctx")
      case (Inl e)
      with True ex show ?thesis by (subst research_loop.simps) simp
    next
      case (Inr ctx1)
      note ing = Inr
      show ?thesis
      proof (cases "evaluateProgress SM query ctx1")
        case (Inl e)
        with True ex ing show ?thesis by (subst research_loop.simps) simp
      next
        case (Inr a)
        note ev = Inr
        show ?thesis
        proof (cases "satisfaction a > 0.85")
          case True
          with \<open>iterations < maxI\<close> ex ing ev show ?thesis
            by (subst research_loop.simps) simp
        next
          case False
          note unsat = False
          show ?thesis
          proof (cases "call_replan CO query (missing_info a)")
            case (Inl e)
            with True ex ing ev unsat show ?thesis by (subst research_loop.simps) simp
          next
            case (Inr p1)
            have "fst (snd (research_loop SM CO L query maxI (Suc iterations) p1 ctx1 w1 (Suc evals)))
                    \<le> Suc evals + (maxI - Suc iterations)"
              using "1.IH" [OF True ex [symmetric] ing ev unsat Inr] .
            with True ex ing ev unsat Inr show ?thesis
              by (subst research_loop.simps) simp
          qed
        qed
      qed
    qed
  qed
qed

text \<open>
  With a store that stays empty and a coordinator that can replan, the loop runs to the
  end of its budget and calls the evaluator once per iteration.
\<close>

lemma research_loop_exhausts_budget:
  "research_loop countingStore (replanningCoordinator H) L query maxI i p 0 w n
     = (Inr 0, n + (maxI - i), w)"
proof (induction "maxI - i" arbitrary: i p n)
  case 0
  then show ?case by (subst research_loop.simps) simp
next
  case (Suc k)
  then have lt: "i < maxI" and k: "k = maxI - Suc i"
    by simp_all
  have ex: "executeSteps L (steps p) (0::nat) w = ([], w)"
    by (simp add: executeSteps_def executeSteps_in_module_scope)
  have ing: "call_ingest countingStore [] (0::nat) = Inr 0"
    by (simp add: call_ingest_def countingStore_def)
  have ev: "evaluateProgress countingStore query (0::nat)
              = Inr \<lparr>satisfaction = 0.3, missing_info = Some ''Search failed to yield content''\<rparr>"
    by (simp add: evaluateProgress_def call_getTotalWordCount_def countingStore_def)
  obtain p1 where p1: "Coordinator_plan H query = Inr p1"
    by (simp add: Coordinator_plan_def Let_def)
  then have rp: "call_replan (replanningCoordinator H) query (Some ''Search failed to yield content'')
              = Inr p1"
    by (simp add: call_replan_def replanningCoordinator_def)
  have "research_loop countingStore (replanningCoordinator H) L query maxI i p 0 w n
          = research_loop countingStore (replanningCoordinator H) L query maxI (Suc i) p1 0 w (Suc n)"
    using lt ex ing ev rp by (subst research_loop.simps) simp
  also have "\<dots> = (Inr 0, Suc n + (maxI - Suc i), w)"
    by (rule Suc.hyps(1) [OF k])
  finally show ?case using lt by simp
qed

text \<open>
  C2. \<^verbatim>\<open>Looper.start\<close> is a total function of its inputs, whatever the providers, the
  context store and the coordinator do, and it makes at most \<open>maxIterations + 1\<close> calls
  of the evaluator (in fact at most \<open>maxIterations\<close>), where \<open>maxIterations\<close> is 4 when
  the caller's depth is \<^verbatim>\<open>'deep'\<close> and 2 otherwise. The bound is stated for the loop over
  any store and coordinator, and for the loop as the repository wires it.
\<close>

theorem start_evaluator_calls:
  "fst (snd (start_with SM fresh CO L query options w)) \<le> maxIterations options + 1
   \<and> fst (snd (start H L query options w)) \<le> maxIterations options + 1
   \<and> maxIterations options = (if opt_depth options = Some ''deep'' then 4 else 2)"
proof -
  have loop: "fst (snd (research_loop SM CO L query (maxIterations options) 0 p ctx w 0))
                \<le> maxIterations options" for SM :: "'x store_methods" and CO p ctx
    using research_loop_evals [of SM CO L query "maxIterations options" 0 p ctx w 0] by simp
  have gen: "fst (snd (start_with SM fresh CO L query options w)) \<le> maxIterations options"
    for SM :: "'x store_methods" and fresh CO
  proof (cases "call_plan CO query")
    case (Inl e)
    then show ?thesis by (simp add: start_with_def)
  next
    case (Inr p)
    note pl = Inr
    show ?thesis
    proof (cases "call_logInteraction SM ''PLAN_CREATED'' p fresh")
      case (Inl e)
      with pl show ?thesis by (simp add: start_with_def)
    next
      case (Inr ctx)
      obtain r evals w1 where
        lp: "research_loop SM CO L query (maxIterations options) 0 p ctx w 0 = (r, evals, w1)"
        by (cases "research_loop SM CO L query (maxIterations options) 0 p ctx w 0")
      with loop [of SM CO p ctx] have "evals \<le> maxIterations options" by simp
      with pl Inr lp show ?thesis
        by (cases r) (simp_all add: start_with_def)
    qed
  qed
  from gen [of SM fresh CO] gen [of ContextGraph_methods new_ContextGraph "Coordinator H"]
  show ?thesis
    by (simp add: start_def maxIterations_def)
qed

text \<open>
  A deep session over a store that stays empty, with a coordinator that can replan: the
  evaluator is called four times, and the loop goes on to the synthesis.
\<close>

theorem start_evaluator_calls_witness:
  "start_with countingStore 0 (replanningCoordinator (basicLatinHost 0)) new_Looper
       (js ''why'') \<lparr>opt_depth = Some ''deep'', opt_privacy = None\<rparr> ()
     = (synthesize countingStore (js ''why'') 0, 4, ())
   \<and> fst (snd (start_with countingStore 0 (replanningCoordinator (basicLatinHost 0)) new_Looper
       (js ''why'') \<lparr>opt_depth = Some ''deep'', opt_privacy = None\<rparr> ())) \<le> 4 + 1"
proof -
  obtain p where p: "Coordinator_plan (basicLatinHost 0) (js ''why'') = Inr p"
    by (simp add: Coordinator_plan_def Let_def)
  then have cp: "call_plan (replanningCoordinator (basicLatinHost 0)) (js ''why'') = Inr p"
    by (simp add: call_plan_def replanningCoordinator_def)
  have lg: "call_logInteraction countingStore ''PLAN_CREATED'' p (0::nat) = Inr 0"
    by (simp add: call_logInteraction_def countingStore_def)
  have mx: "maxIterations \<lparr>opt_depth = Some ''deep'', opt_privacy = None\<rparr> = 4"
    by (simp add: maxIterations_def)
  have "research_loop countingStore (replanningCoordinator (basicLatinHost 0)) new_Looper (js ''why'')
          4 0 p 0 () 0 = (Inr 0, 0 + (4 - 0), ())"
    by (rule research_loop_exhausts_budget)
  with cp lg mx have "start_with countingStore 0 (replanningCoordinator (basicLatinHost 0)) new_Looper
       (js ''why'') \<lparr>opt_depth = Some ''deep'', opt_privacy = None\<rparr> ()
        = (synthesize countingStore (js ''why'') 0, 4, ())"
    by (simp add: start_with_def)
  with start_evaluator_calls [of countingStore 0 "replanningCoordinator (basicLatinHost 0)"
      new_Looper "js ''why''" "\<lparr>opt_depth = Some ''deep'', opt_privacy = None\<rparr>" "()" "basicLatinHost 0"]
  show ?thesis by simp
qed

text \<open>
  With the repository's coordinator the first unsatisfied iteration ends the loop: the
  call of \<^verbatim>\<open>Coordinator.replan\<close> throws.
\<close>

lemma research_loop_Coordinator_unsatisfied:
  assumes "0 < maxI"
  shows "research_loop countingStore (Coordinator H) L query maxI 0 p 0 w 0
           = (Inl (TypeError ''Coordinator.replan is not a function''), 1, w)"
proof -
  have ex: "executeSteps L (steps p) (0::nat) w = ([], w)"
    by (simp add: executeSteps_def executeSteps_in_module_scope)
  have ing: "call_ingest countingStore [] (0::nat) = Inr 0"
    by (simp add: call_ingest_def countingStore_def)
  have ev: "evaluateProgress countingStore query (0::nat)
              = Inr \<lparr>satisfaction = 0.3, missing_info = Some ''Search failed to yield content''\<rparr>"
    by (simp add: evaluateProgress_def call_getTotalWordCount_def countingStore_def)
  have rp: "call_replan (Coordinator H) query (Some ''Search failed to yield content'')
              = Inl (TypeError ''Coordinator.replan is not a function'')"
    by (simp add: call_replan_def Coordinator_def)
  from assms ex ing ev rp show ?thesis
    by (subst research_loop.simps) simp
qed

text \<open>
  C1 fails on the code. \<^verbatim>\<open>Looper.start\<close> returns no SynthesisResult for any query, any
  options and any providers: the plan is made, and the next statement calls
  \<^verbatim>\<open>context.logInteraction\<close>, which \<^verbatim>\<open>ContextGraph\<close> does not have, so the call rejects
  with \<open>TypeError\<close> before the loop is entered. Given a context store that has the
  methods (and starts empty), the loop still never reaches the end of its budget: the
  first iteration gathers nothing, the evaluator is unsatisfied, and
  \<^verbatim>\<open>Coordinator.replan\<close>, which does not exist either, throws.
\<close>

theorem start_raises:
  "start H L query options w = (Inl (TypeError ''context.logInteraction is not a function''), 0, w)
   \<and> start_with countingStore 0 (Coordinator H) L query options w
       = (Inl (TypeError ''Coordinator.replan is not a function''), 1, w)"
proof
  obtain p where p: "Coordinator_plan H query = Inr p"
    by (simp add: Coordinator_plan_def Let_def)
  have cp: "call_plan (Coordinator H) query = Inr p"
    using p by (simp add: call_plan_def Coordinator_def)
  have "call_logInteraction ContextGraph_methods ''PLAN_CREATED'' p new_ContextGraph
          = Inl (TypeError ''context.logInteraction is not a function'')"
    by (simp add: call_logInteraction_def ContextGraph_methods_def)
  with cp show "start H L query options w
                  = (Inl (TypeError ''context.logInteraction is not a function''), 0, w)"
    by (simp add: start_def start_with_def)
  have lg: "call_logInteraction countingStore ''PLAN_CREATED'' p (0::nat) = Inr 0"
    by (simp add: call_logInteraction_def countingStore_def)
  have "0 < maxIterations options"
    by (simp add: maxIterations_def)
  then have "research_loop countingStore (Coordinator H) L query (maxIterations options) 0 p 0 w 0
           = (Inl (TypeError ''Coordinator.replan is not a function''), 1, w)"
    by (rule research_loop_Coordinator_unsatisfied)
  with cp lg show "start_with countingStore 0 (Coordinator H) L query options w
       = (Inl (TypeError ''Coordinator.replan is not a function''), 1, w)"
    by (simp add: start_with_def)
qed

end
